theory Spec2Isabelle
  imports Complex_Main "HOL-Library.Word"
begin

section \<open>The creep decider of the planning module\<close>

text \<open>
  A shallow embedding of \<^verbatim>\<open>modules/planning/tasks/deciders/decider_creep.cc\<close>.

  Conventions of the embedding:
  \<^item> a C++ \<^verbatim>\<open>double\<close> is a value of the datatype \<open>double\<close> below: IEEE 754 binary64
    with its infinities and NaN, addition and subtraction rounded to nearest with ties
    to even, and the comparisons false on NaN;
  \<^item> the static \<^verbatim>\<open>uint32_t creep_clear_counter_\<close> is a \<^typ>\<open>32 word\<close>, passed in and
    returned by the function that mutates it;
  \<^item> a pointer argument that the code checks with \<^verbatim>\<open>CHECK_NOTNULL\<close> is an
    \<^typ>\<open>'a option\<close>, and a failed \<^verbatim>\<open>CHECK\<close> (which aborts the process) is the
    error value \<open>Inl CHECK_failed\<close>;
  \<^item> a pointer result of a collaborator is an \<^typ>\<open>'a option\<close>, \<open>None\<close> being
    \<^verbatim>\<open>nullptr\<close>;
  \<^item> accessors with one-letter names (\<^verbatim>\<open>s()\<close>, \<^verbatim>\<open>x()\<close>, ...) carry a prefix
    naming their class, and \<^verbatim>\<open>Id()\<close> is \<open>ObstacleId\<close>, since \<open>Id\<close> is the identity
    relation of HOL; the locals \<^verbatim>\<open>stop_distance\<close>, \<^verbatim>\<open>stop_point\<close> and
    \<^verbatim>\<open>stop_heading\<close> of \<^verbatim>\<open>BuildStopDecision\<close>, which share their names with
    fields, are \<open>stop_dist\<close>, \<open>stop_pt\<close> and \<open>stop_hd\<close>.
\<close>

subsection \<open>Binary64 arithmetic\<close>

text \<open>
  A finite double is \<open>Finite m e\<close>, the number \<open>m * 2 ^ e\<close>, in its one canonical
  form: \<open>m\<close> odd, or \<open>m = 0\<close> and \<open>e = 0\<close>. It is a double when \<open>m\<close> has at most 53
  binary digits, \<open>e \<ge> -1074\<close> and \<open>\<bar>m\<bar> * 2 ^ e < 2 ^ 1024\<close> (\<open>is_double\<close>).
  \<open>Finite 0 0\<close> is the zero \<^verbatim>\<open>+0.0\<close> and \<open>NegZero\<close> the zero \<^verbatim>\<open>-0.0\<close>. There is one
  NaN: the code reads neither its sign nor its payload. The operations are those of
  x86-64 and AArch64 builds, where a \<^verbatim>\<open>double\<close> expression has no excess precision.
\<close>

datatype double = Finite int int | NegZero | PInf | NInf | NaN

type_synonym uint32_t = "32 word"

text \<open>The canonical form of \<open>m * 2 ^ e\<close>: trailing zero digits of \<open>m\<close> go to \<open>e\<close>.\<close>

function normalize :: "int \<Rightarrow> int \<Rightarrow> double" where
  "normalize m e =
     (if m = 0 then Finite 0 0
      else if even m then normalize (m div 2) (e + 1)
      else Finite m e)"
  by pat_completeness auto
termination
  by (relation "measure (\<lambda>(m, e). nat \<bar>m\<bar>)") auto

text \<open>The number of binary digits of a positive integer, 0 for the others.\<close>

function bit_length :: "int \<Rightarrow> int" where
  "bit_length n = (if n \<le> 0 then 0 else 1 + bit_length (n div 2))"
  by pat_completeness auto
termination
  by (relation "measure nat") auto

declare normalize.simps [simp del]
declare bit_length.simps [simp del]

text \<open>
  \<open>round64 M E\<close> is the double nearest to the exact number \<open>M * 2 ^ E\<close>, ties going to
  the even significand. With \<open>n\<close> the number of digits of \<open>\<bar>M\<bar>\<close>, the last digit that
  a double of this size keeps has the weight \<open>2 ^ q\<close>, \<open>q = max (n + E - 53) (-1074)\<close>
  (the second bound is that of the subnormal numbers). If \<open>q \<le> E\<close> the number is
  representable as it is. Otherwise the \<open>k = q - E\<close> low digits are dropped and the
  rest goes up by one when the dropped part is more than half a unit, or is half a unit
  and the rest is odd. A result of \<open>2 ^ 1024\<close> or more is an infinity.
\<close>

definition round64 :: "int \<Rightarrow> int \<Rightarrow> double" where
  "round64 M E =
     (if M = 0 then Finite 0 0
      else
        let n = bit_length \<bar>M\<bar>;
            q = max (n + E - 53) (- 1074);
            inf = (if M < 0 then NInf else PInf)
        in if q \<le> E then (if n + E > 1024 then inf else normalize M E)
           else
             let k = nat (q - E);
                 a = \<bar>M\<bar> div 2 ^ k;
                 r = \<bar>M\<bar> mod 2 ^ k;
                 half = 2 ^ (k - 1);
                 a1 = (if r > half \<or> (r = half \<and> odd a) then a + 1 else a)
             in if bit_length a1 + q > 1024 then inf
                else normalize (if M < 0 then - a1 else a1) q)"

text \<open>
  The operator \<^verbatim>\<open>+\<close> on doubles: the exact sum, rounded once. A sum that is exactly
  zero is \<^verbatim>\<open>+0.0\<close>, except that of two \<^verbatim>\<open>-0.0\<close>.
\<close>

definition finite_sum :: "int \<Rightarrow> int \<Rightarrow> int \<Rightarrow> int \<Rightarrow> double" where
  "finite_sum m1 e1 m2 e2 =
     (let e = min e1 e2
      in round64 (m1 * 2 ^ nat (e1 - e) + m2 * 2 ^ nat (e2 - e)) e)"

fun dadd :: "double \<Rightarrow> double \<Rightarrow> double" where
  "dadd NaN y = NaN"
| "dadd x NaN = NaN"
| "dadd PInf NInf = NaN"
| "dadd NInf PInf = NaN"
| "dadd PInf y = PInf"
| "dadd NInf y = NInf"
| "dadd x PInf = PInf"
| "dadd x NInf = NInf"
| "dadd NegZero NegZero = NegZero"
| "dadd NegZero (Finite m e) = finite_sum 0 0 m e"
| "dadd (Finite m e) NegZero = finite_sum m e 0 0"
| "dadd (Finite m1 e1) (Finite m2 e2) = finite_sum m1 e1 m2 e2"

declare dadd.simps [simp del]

text \<open>Unary minus, and the operator \<^verbatim>\<open>-\<close>: \<open>x - y\<close> is \<open>x + (-y)\<close> in binary64.\<close>

fun dneg :: "double \<Rightarrow> double" where
  "dneg (Finite m e) = (if m = 0 then NegZero else Finite (- m) e)"
| "dneg NegZero = Finite 0 0"
| "dneg PInf = NInf"
| "dneg NInf = PInf"
| "dneg NaN = NaN"

definition dsub :: "double \<Rightarrow> double \<Rightarrow> double" where
  "dsub x y = dadd x (dneg y)"

text \<open>The operators \<^verbatim>\<open><\<close>, \<^verbatim>\<open><=\<close>, \<^verbatim>\<open>>\<close> and \<^verbatim>\<open>>=\<close>.\<close>

fun dlt :: "double \<Rightarrow> double \<Rightarrow> bool" where
  "dlt NaN y = False"
| "dlt x NaN = False"
| "dlt PInf y = False"
| "dlt x NInf = False"
| "dlt NInf y = True"
| "dlt x PInf = True"
| "dlt NegZero NegZero = False"
| "dlt NegZero (Finite m e) = (0 < m)"
| "dlt (Finite m e) NegZero = (m < 0)"
| "dlt (Finite m1 e1) (Finite m2 e2) =
     (let e = min e1 e2 in m1 * 2 ^ nat (e1 - e) < m2 * 2 ^ nat (e2 - e))"

fun dle :: "double \<Rightarrow> double \<Rightarrow> bool" where
  "dle NaN y = False"
| "dle x NaN = False"
| "dle NInf y = True"
| "dle x PInf = True"
| "dle PInf y = False"
| "dle x NInf = False"
| "dle NegZero NegZero = True"
| "dle NegZero (Finite m e) = (0 \<le> m)"
| "dle (Finite m e) NegZero = (m \<le> 0)"
| "dle (Finite m1 e1) (Finite m2 e2) =
     (let e = min e1 e2 in m1 * 2 ^ nat (e1 - e) \<le> m2 * 2 ^ nat (e2 - e))"

definition dgt :: "double \<Rightarrow> double \<Rightarrow> bool" where
  "dgt x y = dlt y x"

definition dge :: "double \<Rightarrow> double \<Rightarrow> bool" where
  "dge x y = dle y x"

text \<open>The real number that a finite double is, and the values that are doubles.\<close>

definition valof :: "double \<Rightarrow> real option" where
  "valof x =
     (case x of
        Finite m e \<Rightarrow>
          Some (if e \<ge> 0 then of_int m * 2 ^ nat e else of_int m / 2 ^ nat (- e))
      | NegZero \<Rightarrow> Some 0
      | _ \<Rightarrow> None)"

definition is_double :: "double \<Rightarrow> bool" where
  "is_double x =
     (case x of
        Finite m e \<Rightarrow>
          (m = 0 \<and> e = 0) \<or>
          (odd m \<and> - 1074 \<le> e \<and> bit_length \<bar>m\<bar> \<le> 53 \<and> bit_length \<bar>m\<bar> + e \<le> 1024)
      | _ \<Rightarrow> True)"

text \<open>
  The literals of the source: \<^verbatim>\<open>0.0\<close>, \<^verbatim>\<open>0.5\<close> and \<^verbatim>\<open>1e-6\<close>, the last one being
  the double nearest to \<open>10 ^ -6\<close>, which lies below it.
\<close>

abbreviation lit_0_0 :: double where "lit_0_0 \<equiv> Finite 0 0"
abbreviation lit_0_5 :: double where "lit_0_5 \<equiv> Finite 1 (- 1)"
abbreviation lit_1e_6 :: double where "lit_1e_6 \<equiv> Finite 4722366482869645 (- 72)"

text \<open>The doubles of the scenarios and of the concrete inputs, named by their decimals.\<close>

abbreviation lit_0_1 :: double where "lit_0_1 \<equiv> Finite 3602879701896397 (- 55)"
abbreviation lit_0_2 :: double where "lit_0_2 \<equiv> Finite 3602879701896397 (- 54)"
abbreviation lit_0_25 :: double where "lit_0_25 \<equiv> Finite 1 (- 2)"
abbreviation lit_1_0 :: double where "lit_1_0 \<equiv> Finite 1 0"
abbreviation lit_1_7 :: double where "lit_1_7 \<equiv> Finite 7656119366529843 (- 52)"
abbreviation lit_2_0 :: double where "lit_2_0 \<equiv> Finite 1 1"
abbreviation lit_3 :: double where "lit_3 \<equiv> Finite 3 0"
abbreviation lit_5 :: double where "lit_5 \<equiv> Finite 5 0"
abbreviation lit_6_0 :: double where "lit_6_0 \<equiv> Finite 3 1"
abbreviation lit_6_5 :: double where "lit_6_5 \<equiv> Finite 13 (- 1)"
abbreviation lit_7 :: double where "lit_7 \<equiv> Finite 7 0"
abbreviation lit_8 :: double where "lit_8 \<equiv> Finite 1 3"
abbreviation lit_9 :: double where "lit_9 \<equiv> Finite 9 0"
abbreviation lit_10 :: double where "lit_10 \<equiv> Finite 5 1"
abbreviation lit_15 :: double where "lit_15 \<equiv> Finite 15 0"
abbreviation lit_20 :: double where "lit_20 \<equiv> Finite 5 2"
abbreviation lit_30 :: double where "lit_30 \<equiv> Finite 15 1"
abbreviation lit_40 :: double where "lit_40 \<equiv> Finite 5 3"
abbreviation lit_42 :: double where "lit_42 \<equiv> Finite 21 1"
abbreviation lit_50 :: double where "lit_50 \<equiv> Finite 25 1"
abbreviation lit_50_5 :: double where "lit_50_5 \<equiv> Finite 101 (- 1)"
abbreviation lit_62_1 :: double where "lit_62_1 \<equiv> Finite 8739798026865869 (- 47)"
abbreviation lit_62_5 :: double where "lit_62_5 \<equiv> Finite 125 (- 1)"
abbreviation lit_63_5 :: double where "lit_63_5 \<equiv> Finite 127 (- 1)"
abbreviation lit_63_6 :: double where "lit_63_6 \<equiv> Finite 8950904259398861 (- 47)"
abbreviation lit_64_5 :: double where "lit_64_5 \<equiv> Finite 129 (- 1)"
abbreviation lit_99_5 :: double where "lit_99_5 \<equiv> Finite 199 (- 1)"
abbreviation lit_100_0 :: double where "lit_100_0 \<equiv> Finite 25 2"
abbreviation lit_100_5 :: double where "lit_100_5 \<equiv> Finite 201 (- 1)"

text \<open>The double just below 64, \<open>64 - 2 ^ -47\<close>.\<close>

abbreviation lit_below_64 :: double where "lit_below_64 \<equiv> Finite 9007199254740991 (- 47)"

subsection \<open>Data\<close>

record PathOverlap =
  object_id :: string
  overlap_start_s :: double
  overlap_end_s :: double

record STPoint =
  stp_s :: double
  stp_t :: double

record STBoundary =
  min_s :: double
  min_t :: double
  bottom_left_point :: STPoint
  bottom_right_point :: STPoint

record Obstacle =
  ObstacleId :: string
  IsVirtual :: bool
  IsStatic :: bool
  reference_line_st_boundary :: STBoundary

record SLBoundary =
  end_s :: double

record ReferencePoint =
  rp_x :: double
  rp_y :: double
  rp_heading :: double

record ReferenceLine =
  GetReferencePoint :: "double \<Rightarrow> ReferencePoint"

record PointENU =
  pt_x :: double
  pt_y :: double
  pt_z :: double

text \<open>
  Of the enumeration \<^verbatim>\<open>StopReasonCode\<close> this file names one value only; the other
  enumerators are gathered in \<open>STOP_REASON_other\<close>.
\<close>

datatype StopReasonCode = STOP_REASON_CREEPER | STOP_REASON_other nat

record ObjectStop =
  reason_code :: StopReasonCode
  distance_s :: double
  stop_point :: PointENU
  stop_heading :: double

text \<open>
  \<^verbatim>\<open>ObjectDecisionType\<close> is a tagged union; \<^verbatim>\<open>mutable_stop()\<close> selects the
  alternative \<open>stop\<close>.
\<close>

datatype ObjectDecisionType = object_tag_not_set | stop ObjectStop

text \<open>
  The path decision holds the obstacles that \<^verbatim>\<open>obstacles().Items()\<close> iterates, in
  that order. Modelled from the spec: \<^verbatim>\<open>PathDecision::AddLongitudinalDecision\<close> is not
  part of this file; the spec has the decision "attached under tag Creeper keyed by the
  new obstacle's id", so the model keeps the attachments (tag, obstacle id, decision) in
  the order they were made.
\<close>

record PathDecision =
  obstacles :: "Obstacle list"
  longitudinal_decisions :: "(string \<times> string \<times> ObjectDecisionType) list"

definition AddLongitudinalDecision ::
  "PathDecision \<Rightarrow> string \<Rightarrow> string \<Rightarrow> ObjectDecisionType \<Rightarrow> PathDecision" where
  "AddLongitudinalDecision pd tag obstacle_id decision =
     pd\<lparr>longitudinal_decisions := longitudinal_decisions pd @ [(tag, obstacle_id, decision)]\<rparr>"

record ReferenceLineInfo =
  AdcSlBoundary :: SLBoundary
  path_decision :: PathDecision
  reference_line :: ReferenceLine

record Frame =
  frame_obstacles :: "Obstacle list"

text \<open>
  The two global objects that \<^verbatim>\<open>Process\<close> reads:
  \<^verbatim>\<open>PlanningContext::Planningstatus().stop_sign().current_stop_sign_overlap_id()\<close> and
  \<^verbatim>\<open>PlanningContext::GetScenarioInfo()->current_traffic_light_overlaps\<close>.
\<close>

record PlanningContext =
  current_stop_sign_overlap_id :: string
  current_traffic_light_overlaps :: "PathOverlap list"

datatype OverlapType = CLEAR_AREA | CROSSWALK | PNC_JUNCTION | SIGNAL | STOP_SIGN

text \<open>
  What the file takes from other translation units, as parameters: the macro
  \<^verbatim>\<open>CREEP_VO_ID_PREFIX\<close>, \<^verbatim>\<open>scenario::util::RefreshOverlapOnReferenceLine\<close>,
  \<^verbatim>\<open>Frame::CreateStopObstacle\<close> and \<^verbatim>\<open>ReferenceLineInfo::AddObstacle\<close>. Creation
  works on the frame and registration on the obstacle set of the reference-line info's
  path decision; either may return \<^verbatim>\<open>nullptr\<close>, and the state they leave behind is
  theirs to choose in both cases.
\<close>

record Extern =
  CREEP_VO_ID_PREFIX :: string
  RefreshOverlapOnReferenceLine ::
    "ReferenceLineInfo \<Rightarrow> string \<Rightarrow> OverlapType \<Rightarrow> PathOverlap option"
  CreateStopObstacle ::
    "Frame \<Rightarrow> ReferenceLineInfo \<Rightarrow> string \<Rightarrow> double \<Rightarrow> Obstacle option \<times> Frame"
  AddObstacle :: "Obstacle list \<Rightarrow> Obstacle \<Rightarrow> Obstacle option \<times> Obstacle list"

record DeciderCreepConfig =
  stop_distance :: double
  max_valid_stop_distance :: double
  min_boundary_t :: double
  ignore_max_st_min_t :: double
  ignore_min_st_min_s :: double

text \<open>
  The decider object: its name and the \<^verbatim>\<open>decider_creep_config\<close> of its task
  configuration, which the constructor checks to be present.
\<close>

record DeciderCreep =
  name :: string
  decider_creep_config :: DeciderCreepConfig

datatype fatal = CHECK_failed

datatype Status = OK | Error string

subsection \<open>Operations\<close>

definition DeciderCreep_new :: "DeciderCreepConfig option \<Rightarrow> fatal + DeciderCreep" where
  "DeciderCreep_new config =
     (case config of
        None \<Rightarrow> Inl CHECK_failed
      | Some c \<Rightarrow> Inr \<lparr>name = ''DeciderCreep'', decider_creep_config = c\<rparr>)"

definition FindCreepDistance :: "Frame \<Rightarrow> ReferenceLineInfo \<Rightarrow> double" where
  "FindCreepDistance frame reference_line_info = lit_0_5"

definition BuildStopDecision ::
  "DeciderCreep \<Rightarrow> Extern \<Rightarrow> double \<Rightarrow> Frame option \<Rightarrow> ReferenceLineInfo option \<Rightarrow>
     fatal + (bool \<times> Frame \<times> ReferenceLineInfo)" where
  "BuildStopDecision this ext stop_line_s frame reference_line_info =
     (case frame of
        None \<Rightarrow> Inl CHECK_failed
      | Some f \<Rightarrow>
     (case reference_line_info of
        None \<Rightarrow> Inl CHECK_failed
      | Some r \<Rightarrow>
     (let creep_stop_s = dadd stop_line_s (FindCreepDistance f r);
          virtual_obstacle_id = CREEP_VO_ID_PREFIX ext @ ''SS'';
          (obstacle, f1) = CreateStopObstacle ext f r virtual_obstacle_id creep_stop_s
      in case obstacle of
           None \<Rightarrow> Inr (False, f1, r)
         | Some ob \<Rightarrow>
     (let (stop_wall, obs1) = AddObstacle ext (obstacles (path_decision r)) ob;
          r1 = r\<lparr>path_decision := (path_decision r)\<lparr>obstacles := obs1\<rparr>\<rparr>
      in case stop_wall of
           None \<Rightarrow> Inr (False, f1, r1)
         | Some wall \<Rightarrow>
     (let stop_dist = stop_distance (decider_creep_config this);
          stop_s = dsub creep_stop_s stop_dist;
          stop_pt = GetReferencePoint (reference_line r1) stop_s;
          stop_hd = rp_heading (GetReferencePoint (reference_line r1) stop_s);
          stop_decision =
            \<lparr>reason_code = STOP_REASON_CREEPER,
             distance_s = dneg stop_dist,
             stop_point = \<lparr>pt_x = rp_x stop_pt, pt_y = rp_y stop_pt, pt_z = lit_0_0\<rparr>,
             stop_heading = stop_hd\<rparr>
      in Inr (True, f1,
              r1\<lparr>path_decision :=
                   AddLongitudinalDecision (path_decision r1) ''Creeper'' (ObstacleId wall)
                     (stop stop_decision)\<rparr>))))))"

text \<open>Lines 48 to 67 of \<^verbatim>\<open>Process\<close>: the local variable \<^verbatim>\<open>stop_line_s\<close>.\<close>

definition Process_stop_line_s :: "Extern \<Rightarrow> PlanningContext \<Rightarrow> ReferenceLineInfo \<Rightarrow> double" where
  "Process_stop_line_s ext ctx r =
     (let stop_sign_overlap_id = current_stop_sign_overlap_id ctx
      in if stop_sign_overlap_id \<noteq> [] then
           (case RefreshOverlapOnReferenceLine ext r stop_sign_overlap_id STOP_SIGN of
              Some current_stop_sign_overlap \<Rightarrow> overlap_end_s current_stop_sign_overlap
            | None \<Rightarrow> lit_0_0)
         else if length (current_traffic_light_overlaps ctx) > 0 then
           overlap_end_s (current_traffic_light_overlaps ctx ! 0)
         else lit_0_0)"

definition Process ::
  "DeciderCreep \<Rightarrow> Extern \<Rightarrow> PlanningContext \<Rightarrow> Frame option \<Rightarrow> ReferenceLineInfo option \<Rightarrow>
     fatal + (Status \<times> Frame \<times> ReferenceLineInfo)" where
  "Process this ext ctx frame reference_line_info =
     (case frame of
        None \<Rightarrow> Inl CHECK_failed
      | Some f \<Rightarrow>
     (case reference_line_info of
        None \<Rightarrow> Inl CHECK_failed
      | Some r \<Rightarrow>
     (let stop_line_s = Process_stop_line_s ext ctx r
      in if dgt stop_line_s lit_0_0 then
           (case BuildStopDecision this ext stop_line_s (Some f) (Some r) of
              Inl e \<Rightarrow> Inl e
            | Inr (built, f1, r1) \<Rightarrow> Inr (OK, f1, r1))
         else Inr (OK, f, r))))"

text \<open>
  The loop of \<^verbatim>\<open>CheckCreepDone\<close> over the obstacles; its value is the variable
  \<^verbatim>\<open>all_far_away\<close> when the loop ends. A \<^verbatim>\<open>continue\<close> is the recursive call on the
  rest, the \<^verbatim>\<open>break\<close> ends the loop with \<open>False\<close>.
\<close>

fun all_far_away :: "DeciderCreepConfig \<Rightarrow> Obstacle list \<Rightarrow> bool" where
  "all_far_away creep_config [] = True"
| "all_far_away creep_config (obstacle # rest) =
     (if IsVirtual obstacle \<or> IsStatic obstacle then all_far_away creep_config rest
      else if dlt (min_t (reference_line_st_boundary obstacle)) (min_boundary_t creep_config)
      then
        (let kepsilon = lit_1e_6;
             obstacle_traveled_s =
               dsub (stp_s (bottom_left_point (reference_line_st_boundary obstacle)))
                    (stp_s (bottom_right_point (reference_line_st_boundary obstacle)))
         in if dlt obstacle_traveled_s kepsilon \<and>
               dlt (min_t (reference_line_st_boundary obstacle))
                   (ignore_max_st_min_t creep_config) \<and>
               dgt (min_s (reference_line_st_boundary obstacle))
                   (ignore_min_st_min_s creep_config)
            then all_far_away creep_config rest
            else False)
      else all_far_away creep_config rest)"

text \<open>
  \<^verbatim>\<open>CheckCreepDone\<close> takes the static counter and returns \<^verbatim>\<open>creep_done\<close> with the
  counter as the call leaves it.
\<close>

definition CheckCreepDone ::
  "DeciderCreep \<Rightarrow> Frame \<Rightarrow> ReferenceLineInfo \<Rightarrow> double \<Rightarrow> double \<Rightarrow> double \<Rightarrow> uint32_t \<Rightarrow>
     bool \<times> uint32_t" where
  "CheckCreepDone this frame reference_line_info stop_sign_overlap_end_s wait_time_sec
       timeout_sec creep_clear_counter =
     (let creep_config = decider_creep_config this;
          creep_stop_s =
            dadd stop_sign_overlap_end_s (FindCreepDistance frame reference_line_info);
          distance = dsub creep_stop_s (end_s (AdcSlBoundary reference_line_info))
      in if dlt distance (max_valid_stop_distance creep_config) \<or>
            dge wait_time_sec timeout_sec then
           (let far = all_far_away creep_config (obstacles (path_decision reference_line_info));
                counter1 = (if far then creep_clear_counter + 1 else 0)
            in if counter1 \<ge> 5 then (True, 0) else (False, counter1))
         else (False, creep_clear_counter))"

subsection \<open>The words of the specification\<close>

text \<open>
  The gate of the clearance evaluation, as the specification words it: evaluate only if
  \<open>distance_to_go < max_valid_stop_distance\<close> or \<open>wait_time_sec \<ge> timeout_sec\<close>. The
  distance to go is \<open>creep_stop_s - ego_end_s\<close> with \<open>creep_stop_s\<close> the stop-line end
  plus the creep distance, both operations being those of doubles.
\<close>

definition gate_satisfied :: "DeciderCreepConfig \<Rightarrow> double \<Rightarrow> double \<Rightarrow> double \<Rightarrow> bool" where
  "gate_satisfied creep_config distance_to_go wait_time_sec timeout_sec =
     (dlt distance_to_go (max_valid_stop_distance creep_config) \<or>
      dge wait_time_sec timeout_sec)"

definition distance_to_go :: "double \<Rightarrow> double \<Rightarrow> double \<Rightarrow> double" where
  "distance_to_go stop_line_end_s creep_distance ego_end_s =
     dsub (dadd stop_line_end_s creep_distance) ego_end_s"

text \<open>
  The benign exception and the blocking obstacle, as the specification words them.
\<close>

definition traveled_s :: "Obstacle \<Rightarrow> double" where
  "traveled_s ob =
     dsub (stp_s (bottom_left_point (reference_line_st_boundary ob)))
          (stp_s (bottom_right_point (reference_line_st_boundary ob)))"

definition benign_exception :: "DeciderCreepConfig \<Rightarrow> Obstacle \<Rightarrow> bool" where
  "benign_exception creep_config ob =
     (dlt (traveled_s ob) lit_1e_6 \<and>
      dlt (min_t (reference_line_st_boundary ob)) (ignore_max_st_min_t creep_config) \<and>
      dgt (min_s (reference_line_st_boundary ob)) (ignore_min_st_min_s creep_config))"

definition blocking :: "DeciderCreepConfig \<Rightarrow> Obstacle \<Rightarrow> bool" where
  "blocking creep_config ob =
     (\<not> IsVirtual ob \<and> \<not> IsStatic ob \<and>
      dlt (min_t (reference_line_st_boundary ob)) (min_boundary_t creep_config) \<and>
      \<not> benign_exception creep_config ob)"

text \<open>
  The debounce gate of the specification: a state machine on the count, fed one sample
  per call. A clear sample counts up, firing and resetting at 5; a blocked sample resets;
  a sample whose gate is not satisfied makes no transition.
\<close>

datatype Sample = clear | blocked | gate_not_satisfied

fun DebounceGate :: "Sample \<Rightarrow> uint32_t \<Rightarrow> bool \<times> uint32_t" where
  "DebounceGate clear count = (if count + 1 \<ge> 5 then (True, 0) else (False, count + 1))"
| "DebounceGate blocked count = (False, 0)"
| "DebounceGate gate_not_satisfied count = (False, count)"

text \<open>
  Iterating \<^verbatim>\<open>CheckCreepDone\<close>: successive calls, each with its own arguments, thread
  the static counter; the run lists what each call returned and the counter it left.
\<close>

record CheckCreepDone_call =
  call_frame :: Frame
  call_reference_line_info :: ReferenceLineInfo
  call_stop_sign_overlap_end_s :: double
  call_wait_time_sec :: double
  call_timeout_sec :: double

fun CheckCreepDone_run ::
  "DeciderCreep \<Rightarrow> CheckCreepDone_call list \<Rightarrow> uint32_t \<Rightarrow> (bool \<times> uint32_t) list" where
  "CheckCreepDone_run this [] counter = []"
| "CheckCreepDone_run this (a # rest) counter =
     (let (creep_done, counter1) =
            CheckCreepDone this (call_frame a) (call_reference_line_info a)
              (call_stop_sign_overlap_end_s a) (call_wait_time_sec a) (call_timeout_sec a)
              counter
      in (creep_done, counter1) # CheckCreepDone_run this rest counter1)"

text \<open>A call whose gate is satisfied, and a call in which no obstacle blocks.\<close>

definition call_gate_satisfied :: "DeciderCreep \<Rightarrow> CheckCreepDone_call \<Rightarrow> bool" where
  "call_gate_satisfied this a =
     gate_satisfied (decider_creep_config this)
       (distance_to_go (call_stop_sign_overlap_end_s a)
          (FindCreepDistance (call_frame a) (call_reference_line_info a))
          (end_s (AdcSlBoundary (call_reference_line_info a))))
       (call_wait_time_sec a) (call_timeout_sec a)"

definition call_clear :: "DeciderCreep \<Rightarrow> CheckCreepDone_call \<Rightarrow> bool" where
  "call_clear this a =
     list_all (\<lambda>ob. \<not> blocking (decider_creep_config this) ob)
       (obstacles (path_decision (call_reference_line_info a)))"

subsection \<open>Concrete inputs\<close>

text \<open>
  A configuration, obstacles (a static one, one that meets the benign exception, one that
  blocks, one far in time, one whose \<open>traveled_s\<close> is the literal \<^verbatim>\<open>1e-6\<close> itself),
  reference-line infos whose ego vehicle ends at 50.5, 0.2, 62.1 and 62.5, and
  collaborators that succeed, or fail at creation or registration.
\<close>

definition demo_config :: DeciderCreepConfig where
  "demo_config =
     \<lparr>stop_distance = lit_1_0, max_valid_stop_distance = lit_2_0, min_boundary_t = lit_6_0,
      ignore_max_st_min_t = lit_0_1, ignore_min_st_min_s = lit_15\<rparr>"

definition demo_decider :: DeciderCreep where
  "demo_decider = \<lparr>name = ''DeciderCreep'', decider_creep_config = demo_config\<rparr>"

definition demo_static :: Obstacle where
  "demo_static =
     \<lparr>ObstacleId = ''cone'', IsVirtual = False, IsStatic = True,
      reference_line_st_boundary =
        \<lparr>min_s = lit_5, min_t = lit_0_0,
         bottom_left_point = \<lparr>stp_s = lit_5, stp_t = lit_0_0\<rparr>,
         bottom_right_point = \<lparr>stp_s = lit_5, stp_t = lit_8\<rparr>\<rparr>\<rparr>"

definition demo_benign :: Obstacle where
  "demo_benign =
     \<lparr>ObstacleId = ''lead'', IsVirtual = False, IsStatic = False,
      reference_line_st_boundary =
        \<lparr>min_s = lit_20, min_t = lit_0_0,
         bottom_left_point = \<lparr>stp_s = lit_20, stp_t = lit_0_0\<rparr>,
         bottom_right_point = \<lparr>stp_s = lit_30, stp_t = lit_8\<rparr>\<rparr>\<rparr>"

definition demo_blocking :: Obstacle where
  "demo_blocking =
     \<lparr>ObstacleId = ''cross'', IsVirtual = False, IsStatic = False,
      reference_line_st_boundary =
        \<lparr>min_s = lit_10, min_t = lit_2_0,
         bottom_left_point = \<lparr>stp_s = lit_10, stp_t = lit_2_0\<rparr>,
         bottom_right_point = \<lparr>stp_s = lit_15, stp_t = lit_5\<rparr>\<rparr>\<rparr>"

definition demo_far :: Obstacle where
  "demo_far =
     \<lparr>ObstacleId = ''late'', IsVirtual = False, IsStatic = False,
      reference_line_st_boundary =
        \<lparr>min_s = lit_10, min_t = lit_7,
         bottom_left_point = \<lparr>stp_s = lit_10, stp_t = lit_7\<rparr>,
         bottom_right_point = \<lparr>stp_s = lit_15, stp_t = lit_8\<rparr>\<rparr>\<rparr>"

definition demo_edge :: Obstacle where
  "demo_edge =
     \<lparr>ObstacleId = ''edge'', IsVirtual = False, IsStatic = False,
      reference_line_st_boundary =
        \<lparr>min_s = lit_20, min_t = lit_0_0,
         bottom_left_point = \<lparr>stp_s = lit_1e_6, stp_t = lit_0_0\<rparr>,
         bottom_right_point = \<lparr>stp_s = lit_0_0, stp_t = lit_8\<rparr>\<rparr>\<rparr>"

definition demo_line :: ReferenceLine where
  "demo_line =
     \<lparr>GetReferencePoint = (\<lambda>s. \<lparr>rp_x = s, rp_y = lit_2_0, rp_heading = lit_0_25\<rparr>)\<rparr>"

definition demo_rli_at :: "double \<Rightarrow> Obstacle list \<Rightarrow> ReferenceLineInfo" where
  "demo_rli_at ego_end_s obs =
     \<lparr>AdcSlBoundary = \<lparr>end_s = ego_end_s\<rparr>,
      path_decision = \<lparr>obstacles = obs, longitudinal_decisions = []\<rparr>,
      reference_line = demo_line\<rparr>"

definition demo_rli :: ReferenceLineInfo where
  "demo_rli = demo_rli_at lit_50_5 [demo_static, demo_benign, demo_far]"

definition demo_rli_blocked :: ReferenceLineInfo where
  "demo_rli_blocked = demo_rli_at lit_50_5 [demo_benign, demo_blocking, demo_far]"

definition demo_frame :: Frame where
  "demo_frame = \<lparr>frame_obstacles = []\<rparr>"

definition demo_wall :: "string \<Rightarrow> Obstacle" where
  "demo_wall obstacle_id =
     \<lparr>ObstacleId = obstacle_id, IsVirtual = True, IsStatic = True,
      reference_line_st_boundary =
        \<lparr>min_s = lit_0_0, min_t = lit_0_0,
         bottom_left_point = \<lparr>stp_s = lit_0_0, stp_t = lit_0_0\<rparr>,
         bottom_right_point = \<lparr>stp_s = lit_0_0, stp_t = lit_0_0\<rparr>\<rparr>\<rparr>"

definition demo_overlap :: PathOverlap where
  "demo_overlap = \<lparr>object_id = ''ss1'', overlap_start_s = lit_40, overlap_end_s = lit_42\<rparr>"

definition demo_extern :: Extern where
  "demo_extern =
     \<lparr>CREEP_VO_ID_PREFIX = ''CREEP_'',
      RefreshOverlapOnReferenceLine =
        (\<lambda>r overlap_id overlap_type.
           if overlap_type = STOP_SIGN \<and> overlap_id = ''ss1'' then Some demo_overlap
           else None),
      CreateStopObstacle =
        (\<lambda>f r obstacle_id obstacle_s.
           (Some (demo_wall obstacle_id),
            f\<lparr>frame_obstacles := frame_obstacles f @ [demo_wall obstacle_id]\<rparr>)),
      AddObstacle = (\<lambda>obs ob. (Some ob, obs @ [ob]))\<rparr>"

definition demo_extern_no_create :: Extern where
  "demo_extern_no_create =
     demo_extern\<lparr>CreateStopObstacle := (\<lambda>f r obstacle_id obstacle_s. (None, f))\<rparr>"

definition demo_extern_no_add :: Extern where
  "demo_extern_no_add = demo_extern\<lparr>AddObstacle := (\<lambda>obs ob. (None, obs))\<rparr>"

text \<open>
  A creation that fails for every \<open>s\<close> below 64.5 and succeeds from 64.5 on.
\<close>

definition demo_extern_from_64_5 :: Extern where
  "demo_extern_from_64_5 =
     demo_extern\<lparr>CreateStopObstacle :=
       (\<lambda>f r obstacle_id obstacle_s.
          if dlt obstacle_s lit_64_5 then (None, f)
          else (Some (demo_wall obstacle_id),
                f\<lparr>frame_obstacles := frame_obstacles f @ [demo_wall obstacle_id]\<rparr>))\<rparr>"

definition demo_light :: "double \<Rightarrow> PathOverlap" where
  "demo_light e = \<lparr>object_id = ''tl'', overlap_start_s = dsub e lit_1_0, overlap_end_s = e\<rparr>"

definition demo_call :: CheckCreepDone_call where
  "demo_call =
     \<lparr>call_frame = demo_frame, call_reference_line_info = demo_rli,
      call_stop_sign_overlap_end_s = lit_100_0, call_wait_time_sec = lit_20,
      call_timeout_sec = lit_15\<rparr>"

text \<open>
  A call 1.5 before the creep stop in decimals, with no obstacle and no timeout: the
  doubles give \<open>1.7 + 0.5 = 2.2\<close> and \<open>2.2 - 0.2 = 2.0\<close>.
\<close>

definition demo_call_near :: CheckCreepDone_call where
  "demo_call_near =
     \<lparr>call_frame = demo_frame, call_reference_line_info = demo_rli_at lit_0_2 [],
      call_stop_sign_overlap_end_s = lit_1_7, call_wait_time_sec = lit_3,
      call_timeout_sec = lit_15\<rparr>"

definition demo_ctx_sign :: PlanningContext where
  "demo_ctx_sign =
     \<lparr>current_stop_sign_overlap_id = ''ss1'',
      current_traffic_light_overlaps = [demo_light lit_7]\<rparr>"

definition demo_ctx_gone :: PlanningContext where
  "demo_ctx_gone =
     \<lparr>current_stop_sign_overlap_id = ''gone'',
      current_traffic_light_overlaps = [demo_light lit_7]\<rparr>"

definition demo_ctx_lights :: PlanningContext where
  "demo_ctx_lights =
     \<lparr>current_stop_sign_overlap_id = [],
      current_traffic_light_overlaps = [demo_light lit_7, demo_light lit_9]\<rparr>"

definition demo_ctx_none :: PlanningContext where
  "demo_ctx_none =
     \<lparr>current_stop_sign_overlap_id = [], current_traffic_light_overlaps = []\<rparr>"

section \<open>Properties\<close>

subsection \<open>Shared facts\<close>

lemmas demo_defs =
  demo_config_def demo_decider_def demo_static_def demo_benign_def demo_blocking_def
  demo_far_def demo_edge_def demo_line_def demo_rli_at_def demo_rli_def demo_rli_blocked_def
  demo_frame_def demo_wall_def demo_overlap_def demo_extern_def demo_extern_no_create_def
  demo_extern_no_add_def demo_extern_from_64_5_def demo_light_def demo_call_def
  demo_call_near_def demo_ctx_sign_def demo_ctx_gone_def demo_ctx_lights_def
  demo_ctx_none_def

text \<open>
  The comparisons exclude each other as those of an order do, NaN included, and the two
  zeros compare as equal.
\<close>

lemma zeros_compare_equal:
  "\<not> dlt NegZero lit_0_0" "\<not> dlt lit_0_0 NegZero" "dle NegZero lit_0_0" "dle lit_0_0 NegZero"
  "dneg lit_0_0 = NegZero" "dadd NegZero NegZero = NegZero" "dadd NegZero lit_0_0 = lit_0_0"
  "dsub lit_0_0 lit_0_0 = lit_0_0" "dsub NegZero lit_0_0 = NegZero"
  by code_simp+

lemma dle_not_dlt: "dle a b \<Longrightarrow> \<not> dlt b a"
  by (cases a; cases b) (auto simp: Let_def min_def split: if_splits)

lemma dlt_not_dle: "dlt a b \<Longrightarrow> \<not> dle b a"
  by (cases a; cases b) (auto simp: Let_def min_def split: if_splits)

text \<open>The named doubles are the decimals of their names, where a double is one.\<close>

lemma literal_values:
  "valof lit_0_0 = Some 0" "valof lit_0_5 = Some 0.5" "valof lit_0_25 = Some 0.25"
  "valof lit_1_0 = Some 1" "valof lit_2_0 = Some 2" "valof lit_3 = Some 3"
  "valof lit_5 = Some 5" "valof lit_6_0 = Some 6" "valof lit_6_5 = Some 6.5"
  "valof lit_7 = Some 7" "valof lit_8 = Some 8" "valof lit_9 = Some 9"
  "valof lit_10 = Some 10" "valof lit_15 = Some 15" "valof lit_20 = Some 20"
  "valof lit_30 = Some 30" "valof lit_40 = Some 40" "valof lit_42 = Some 42"
  "valof lit_50 = Some 50" "valof lit_50_5 = Some 50.5" "valof lit_62_5 = Some 62.5"
  "valof lit_63_5 = Some 63.5" "valof lit_64_5 = Some 64.5" "valof lit_99_5 = Some 99.5"
  "valof lit_100_0 = Some 100" "valof lit_100_5 = Some 100.5"
  "valof lit_below_64 = Some (64 - 1 / 2 ^ 47)"
  by (simp_all add: valof_def)

text \<open>
  The others are the doubles nearest to their decimals: the distance is at most half the
  weight of the last digit of a 53-digit significand.
\<close>

lemma literal_roundings:
  "\<bar>1 / 10 ^ 6 - 4722366482869645 / 2 ^ 72\<bar> < (1 / 2 ^ 73 :: real)"
  "\<bar>1 / 10 - 3602879701896397 / 2 ^ 55\<bar> < (1 / 2 ^ 57 :: real)"
  "\<bar>2 / 10 - 3602879701896397 / 2 ^ 54\<bar> < (1 / 2 ^ 56 :: real)"
  "\<bar>17 / 10 - 7656119366529843 / 2 ^ 52\<bar> < (1 / 2 ^ 53 :: real)"
  "\<bar>621 / 10 - 8739798026865869 / 2 ^ 47\<bar> < (1 / 2 ^ 48 :: real)"
  "\<bar>636 / 10 - 8950904259398861 / 2 ^ 47\<bar> < (1 / 2 ^ 48 :: real)"
  by simp_all

lemma literals_are_doubles:
  "is_double lit_1e_6" "is_double lit_0_1" "is_double lit_0_2" "is_double lit_1_7"
  "is_double lit_62_1" "is_double lit_63_6" "is_double lit_below_64" "is_double lit_0_5"
  "is_double lit_100_0" "is_double lit_100_5" "is_double lit_99_5" "is_double lit_0_0"
  "is_double NegZero"
  by code_simp+

text \<open>The sums and differences that the concrete runs below compute.\<close>

lemma scenario_sums:
  "dadd lit_100_0 lit_0_5 = lit_100_5"
  "dsub lit_100_5 lit_1_0 = lit_99_5"
  "dsub lit_100_5 lit_50_5 = lit_50"
  "dadd lit_7 lit_0_5 = Finite 15 (- 1)"
  "dsub (Finite 15 (- 1)) lit_1_0 = lit_6_5"
  by code_simp+

lemma rounded_sums:
  "dadd lit_1_7 lit_0_5 = Finite 2476979795053773 (- 50)"
  "dsub (Finite 2476979795053773 (- 50)) lit_0_2 = lit_2_0"
  "dadd lit_63_6 lit_0_5 = Finite 2255318250894131 (- 45)"
  "dsub (Finite 2255318250894131 (- 45)) lit_62_1 = Finite 281474976710655 (- 47)"
  "dadd lit_below_64 lit_0_5 = lit_64_5"
  "dsub lit_64_5 lit_62_5 = lit_2_0"
  "dsub lit_64_5 lit_1_0 = lit_63_5"
  by code_simp+

lemma obstacle_differences:
  "dsub lit_5 lit_5 = lit_0_0"
  "dsub lit_20 lit_30 = Finite (- 5) 1"
  "dsub lit_10 lit_15 = Finite (- 5) 0"
  "dsub lit_1e_6 lit_0_0 = lit_1e_6"
  by code_simp+

lemma all_far_away_iff:
  "all_far_away creep_config obs = (\<forall>ob \<in> set obs. \<not> blocking creep_config ob)"
  by (induction obs)
     (auto simp: blocking_def benign_exception_def traveled_s_def Let_def)

lemma CheckCreepDone_gate_open:
  assumes "gate_satisfied (decider_creep_config this)
             (distance_to_go s (FindCreepDistance f r) (end_s (AdcSlBoundary r))) w t"
  shows "CheckCreepDone this f r s w t c =
           DebounceGate
             (if all_far_away (decider_creep_config this) (obstacles (path_decision r))
              then clear else blocked) c"
  using assms
  by (simp add: CheckCreepDone_def gate_satisfied_def distance_to_go_def Let_def)

lemma CheckCreepDone_gate_closed:
  assumes "\<not> gate_satisfied (decider_creep_config this)
               (distance_to_go s (FindCreepDistance f r) (end_s (AdcSlBoundary r))) w t"
  shows "CheckCreepDone this f r s w t c = (False, c)"
  using assms
  by (simp add: CheckCreepDone_def gate_satisfied_def distance_to_go_def Let_def)

lemma CheckCreepDone_clear_step:
  assumes "call_gate_satisfied this a" and "call_clear this a"
  shows "CheckCreepDone this (call_frame a) (call_reference_line_info a)
           (call_stop_sign_overlap_end_s a) (call_wait_time_sec a) (call_timeout_sec a) c
         = DebounceGate clear c"
  using assms
  by (simp add: call_gate_satisfied_def call_clear_def CheckCreepDone_gate_open
      all_far_away_iff list_all_iff)

lemma BuildStopDecision_total:
  "\<exists>built f1 r1. BuildStopDecision this ext s (Some f) (Some r) = Inr (built, f1, r1)"
  by (auto simp: BuildStopDecision_def Let_def split: prod.split option.split)

text \<open>Facts of the concrete inputs.\<close>

lemma demo_obstacles:
  "\<not> blocking demo_config demo_static"
  "benign_exception demo_config demo_benign"
  "\<not> blocking demo_config demo_benign"
  "blocking demo_config demo_blocking"
  "\<not> blocking demo_config demo_far"
  "traveled_s demo_edge = lit_1e_6"
  "\<not> benign_exception demo_config demo_edge"
  "blocking demo_config demo_edge"
  by (simp_all add: blocking_def benign_exception_def traveled_s_def dgt_def
      obstacle_differences demo_defs)

lemma demo_distances:
  "distance_to_go lit_100_0 lit_0_5 lit_50_5 = lit_50"
  "distance_to_go lit_1_7 lit_0_5 lit_0_2 = lit_2_0"
  "distance_to_go lit_63_6 lit_0_5 lit_62_1 = Finite 281474976710655 (- 47)"
  "distance_to_go lit_below_64 lit_0_5 lit_62_5 = lit_2_0"
  by (simp_all add: distance_to_go_def scenario_sums rounded_sums)

lemma demo_call_gate: "call_gate_satisfied demo_decider demo_call"
  by (simp add: call_gate_satisfied_def gate_satisfied_def dge_def demo_defs)

lemma demo_call_clear: "call_clear demo_decider demo_call"
  using demo_obstacles by (simp add: call_clear_def demo_call_def demo_rli_def
      demo_rli_at_def demo_decider_def)

lemma demo_call_near_gate: "\<not> call_gate_satisfied demo_decider demo_call_near"
  by (simp add: call_gate_satisfied_def gate_satisfied_def dge_def FindCreepDistance_def
      demo_distances demo_defs)

lemma demo_call_near_step:
  "CheckCreepDone demo_decider (call_frame demo_call_near)
     (call_reference_line_info demo_call_near) (call_stop_sign_overlap_end_s demo_call_near)
     (call_wait_time_sec demo_call_near) (call_timeout_sec demo_call_near) c = (False, c)"
  using demo_call_near_gate
  by (simp add: call_gate_satisfied_def CheckCreepDone_gate_closed)

subsection \<open>The debounce counter\<close>

text \<open>
  C1. Iterating \<^verbatim>\<open>CheckCreepDone\<close> from a counter of 0 over exactly 5 consecutive calls
  whose gate is satisfied and in which no obstacle blocks: the calls return false, false,
  false, false, true, so "creep done" comes on the 5th call and only there; the counter
  seen after the calls is 1, 2, 3, 4 and then 0, so it never exceeds 4 before firing and
  the call that returns true is the one that resets it to 0. The gate of a call is that
  of the code, on the distance that the doubles give.
\<close>

theorem CheckCreepDone_five_clear_calls:
  assumes "length calls = 5"
    and "\<forall>a \<in> set calls. call_gate_satisfied this a \<and> call_clear this a"
  shows "CheckCreepDone_run this calls 0 =
           [(False, 1), (False, 2), (False, 3), (False, 4), (True, 0)]"
proof -
  from assms(1) obtain a1 a2 a3 a4 a5 where calls: "calls = [a1, a2, a3, a4, a5]"
    by (auto simp: length_Suc_conv eval_nat_numeral)
  with assms(2) show ?thesis
    by (simp add: CheckCreepDone_clear_step word_le_nat_alt)
qed

text \<open>
  The run of five calls at 100.0 with the ego vehicle at 50.5 and the timeout passed;
  and, for contrast, five calls at 1.7 with the ego vehicle at 0.2 and no timeout, where
  the distance of the doubles is 2.0, the gate stays closed and nothing is counted.
\<close>

theorem CheckCreepDone_five_clear_calls_witness:
  "length [demo_call, demo_call, demo_call, demo_call, demo_call] = 5 \<and>
   call_gate_satisfied demo_decider demo_call \<and> call_clear demo_decider demo_call \<and>
   CheckCreepDone_run demo_decider [demo_call, demo_call, demo_call, demo_call, demo_call] 0 =
     [(False, 1), (False, 2), (False, 3), (False, 4), (True, 0)] \<and>
   \<not> call_gate_satisfied demo_decider demo_call_near \<and>
   CheckCreepDone_run demo_decider
     [demo_call_near, demo_call_near, demo_call_near, demo_call_near, demo_call_near] 0 =
     [(False, 0), (False, 0), (False, 0), (False, 0), (False, 0)]"
proof -
  have len: "length [demo_call, demo_call, demo_call, demo_call, demo_call] = 5"
    by simp
  have ok: "\<forall>a \<in> set [demo_call, demo_call, demo_call, demo_call, demo_call].
              call_gate_satisfied demo_decider a \<and> call_clear demo_decider a"
    by (simp add: demo_call_gate demo_call_clear)
  have near: "CheckCreepDone_run demo_decider
     [demo_call_near, demo_call_near, demo_call_near, demo_call_near, demo_call_near] 0 =
     [(False, 0), (False, 0), (False, 0), (False, 0), (False, 0)]"
    by (simp add: demo_call_near_step)
  from CheckCreepDone_five_clear_calls [OF len ok] len demo_call_gate demo_call_clear
       demo_call_near_gate near
  show ?thesis by blast
qed

text \<open>
  C6. Whatever the counter was, one call whose gate is satisfied and in which some
  obstacle blocks returns false and leaves the counter at 0.
\<close>

theorem CheckCreepDone_blocked_resets:
  assumes "gate_satisfied (decider_creep_config this)
             (distance_to_go s (FindCreepDistance f r) (end_s (AdcSlBoundary r))) w t"
    and "\<exists>ob \<in> set (obstacles (path_decision r)). blocking (decider_creep_config this) ob"
  shows "CheckCreepDone this f r s w t c = (False, 0)"
proof -
  from assms(2) have "\<not> all_far_away (decider_creep_config this) (obstacles (path_decision r))"
    by (simp add: all_far_away_iff)
  with assms(1) show ?thesis
    by (simp add: CheckCreepDone_gate_open)
qed

text \<open>
  A blocked call past the timeout, and one before the timeout whose gate the rounded
  distance opens: \<open>63.6 + 0.5 - 62.1\<close> is below 2.0 in doubles.
\<close>

theorem CheckCreepDone_blocked_resets_witness:
  "blocking demo_config demo_blocking \<and>
   CheckCreepDone demo_decider demo_frame demo_rli_blocked lit_100_0 lit_20 lit_15 4 =
     (False, 0) \<and>
   CheckCreepDone demo_decider demo_frame (demo_rli_at lit_62_1 [demo_blocking])
     lit_63_6 lit_3 lit_15 4 = (False, 0)"
proof -
  have g1: "gate_satisfied (decider_creep_config demo_decider)
             (distance_to_go lit_100_0 (FindCreepDistance demo_frame demo_rli_blocked)
                (end_s (AdcSlBoundary demo_rli_blocked))) lit_20 lit_15"
    by (simp add: gate_satisfied_def dge_def)
  have g2: "gate_satisfied (decider_creep_config demo_decider)
             (distance_to_go lit_63_6
                (FindCreepDistance demo_frame (demo_rli_at lit_62_1 [demo_blocking]))
                (end_s (AdcSlBoundary (demo_rli_at lit_62_1 [demo_blocking])))) lit_3 lit_15"
    by (simp add: gate_satisfied_def FindCreepDistance_def demo_distances demo_rli_at_def
        demo_decider_def demo_config_def)
  have b: "blocking demo_config demo_blocking"
    by (rule demo_obstacles)
  then have e1: "\<exists>ob \<in> set (obstacles (path_decision demo_rli_blocked)).
                  blocking (decider_creep_config demo_decider) ob"
    by (simp add: demo_rli_blocked_def demo_rli_at_def demo_decider_def)
  from b have e2: "\<exists>ob \<in> set (obstacles (path_decision (demo_rli_at lit_62_1 [demo_blocking]))).
                  blocking (decider_creep_config demo_decider) ob"
    by (simp add: demo_rli_at_def demo_decider_def)
  from CheckCreepDone_blocked_resets [OF g1 e1, of 4]
       CheckCreepDone_blocked_resets [OF g2 e2, of 4] b
  show ?thesis by blast
qed

text \<open>
  C5. When the gate is not satisfied, that is \<open>distance_to_go \<ge> max_valid_stop_distance\<close>
  and \<open>wait_time_sec < timeout_sec\<close>, the call returns false and the counter is what it
  was before the call. The distance to go is the one the code computes in doubles.
\<close>

theorem CheckCreepDone_gate_not_satisfied:
  assumes "dge (distance_to_go s (FindCreepDistance f r) (end_s (AdcSlBoundary r)))
               (max_valid_stop_distance (decider_creep_config this))"
    and "dlt w t"
  shows "CheckCreepDone this f r s w t c = (False, c)"
proof -
  from assms(1) have "\<not> dlt (distance_to_go s (FindCreepDistance f r) (end_s (AdcSlBoundary r)))
                         (max_valid_stop_distance (decider_creep_config this))"
    by (simp add: dge_def dle_not_dlt)
  moreover from assms(2) have "\<not> dge w t"
    by (simp add: dge_def dlt_not_dle)
  ultimately show ?thesis
    by (simp add: CheckCreepDone_gate_closed gate_satisfied_def)
qed

text \<open>
  At 100.0 with the ego vehicle at 50.5 the distance is 50; at 1.7 with the ego vehicle
  at 0.2 it is 2.0 in doubles, which is not below 2.0. Both calls leave the counter at 4,
  with and without a blocking obstacle.
\<close>

theorem CheckCreepDone_gate_not_satisfied_witness:
  "CheckCreepDone demo_decider demo_frame demo_rli_blocked lit_100_0 lit_3 lit_15 4 =
     (False, 4) \<and>
   distance_to_go lit_1_7 lit_0_5 lit_0_2 = lit_2_0 \<and>
   CheckCreepDone demo_decider demo_frame (demo_rli_at lit_0_2 []) lit_1_7 lit_3 lit_15 4 =
     (False, 4)"
proof -
  have d1: "dge (distance_to_go lit_100_0 (FindCreepDistance demo_frame demo_rli_blocked)
                   (end_s (AdcSlBoundary demo_rli_blocked)))
                (max_valid_stop_distance (decider_creep_config demo_decider))"
    by (simp add: dge_def FindCreepDistance_def demo_distances demo_defs)
  have d2: "dge (distance_to_go lit_1_7 (FindCreepDistance demo_frame (demo_rli_at lit_0_2 []))
                   (end_s (AdcSlBoundary (demo_rli_at lit_0_2 []))))
                (max_valid_stop_distance (decider_creep_config demo_decider))"
    by (simp add: dge_def FindCreepDistance_def demo_distances demo_defs)
  have w: "dlt lit_3 lit_15" by simp
  from CheckCreepDone_gate_not_satisfied [OF d1 w, of 4]
       CheckCreepDone_gate_not_satisfied [OF d2 w, of 4] demo_distances(2)
  show ?thesis by blast
qed

subsection \<open>The gate and the obstacle scan\<close>

text \<open>
  C3. \<^verbatim>\<open>CheckCreepDone\<close> scans the obstacles and updates the counter if and only if
  \<open>distance_to_go = creep_stop_s - ego_end_s\<close> is strictly less than
  \<open>max_valid_stop_distance\<close> or \<open>wait_time_sec \<ge> timeout_sec\<close>: under the gate the call
  is the step of the debounce gate on the sample that the scan yields, otherwise it is the
  step that makes no transition. With \<open>wait_time_sec = 20\<close>, \<open>timeout_sec = 15\<close>,
  \<open>distance_to_go = 50\<close> and \<open>max_valid_stop_distance = 2.0\<close> the distance test fails,
  the gate is satisfied by the timeout, and the scan and the update take place. Sums,
  differences and comparisons are those of doubles.
\<close>

theorem CheckCreepDone_gate_iff:
  "CheckCreepDone this f r s w t c =
     (if gate_satisfied (decider_creep_config this)
           (distance_to_go s (FindCreepDistance f r) (end_s (AdcSlBoundary r))) w t
      then DebounceGate
             (if all_far_away (decider_creep_config this) (obstacles (path_decision r))
              then clear else blocked) c
      else DebounceGate gate_not_satisfied c) \<and>
   (max_valid_stop_distance (decider_creep_config this) = lit_2_0 \<and>
    distance_to_go s (FindCreepDistance f r) (end_s (AdcSlBoundary r)) = lit_50
    \<longrightarrow> \<not> dlt lit_50 (max_valid_stop_distance (decider_creep_config this)) \<and>
        gate_satisfied (decider_creep_config this) lit_50 lit_20 lit_15 \<and>
        CheckCreepDone this f r s lit_20 lit_15 c =
          DebounceGate
            (if all_far_away (decider_creep_config this) (obstacles (path_decision r))
             then clear else blocked) c)"
  by (simp add: CheckCreepDone_def gate_satisfied_def distance_to_go_def dge_def Let_def)

text \<open>
  The scenario with a clear and with a blocked obstacle set; a call before the timeout
  whose rounded distance \<open>63.6 + 0.5 - 62.1\<close> is below 2.0, so that the fifth clear
  sample fires; and a call before the timeout at \<open>64 - 2 ^ -47\<close> with the ego vehicle
  at 62.5, where the sum rounds to 64.5, the distance is 2.0 and the counter stays.
\<close>

theorem CheckCreepDone_gate_iff_witness:
  "max_valid_stop_distance (decider_creep_config demo_decider) = lit_2_0 \<and>
   distance_to_go lit_100_0 (FindCreepDistance demo_frame demo_rli)
     (end_s (AdcSlBoundary demo_rli)) = lit_50 \<and>
   gate_satisfied (decider_creep_config demo_decider) lit_50 lit_20 lit_15 \<and>
   CheckCreepDone demo_decider demo_frame demo_rli lit_100_0 lit_20 lit_15 4 = (True, 0) \<and>
   CheckCreepDone demo_decider demo_frame demo_rli_blocked lit_100_0 lit_20 lit_15 4 =
     (False, 0) \<and>
   CheckCreepDone demo_decider demo_frame demo_rli_blocked lit_100_0 lit_3 lit_15 4 =
     (False, 4) \<and>
   CheckCreepDone demo_decider demo_frame (demo_rli_at lit_62_1 []) lit_63_6 lit_3 lit_15 4 =
     (True, 0) \<and>
   CheckCreepDone demo_decider demo_frame (demo_rli_at lit_62_5 []) lit_below_64 lit_3 lit_15 2 =
     (False, 2)"
proof -
  have m: "max_valid_stop_distance (decider_creep_config demo_decider) = lit_2_0"
    by (simp add: demo_defs)
  have d1: "distance_to_go lit_100_0 (FindCreepDistance demo_frame demo_rli)
              (end_s (AdcSlBoundary demo_rli)) = lit_50"
    by (simp add: FindCreepDistance_def demo_distances demo_defs)
  have d2: "distance_to_go lit_100_0 (FindCreepDistance demo_frame demo_rli_blocked)
              (end_s (AdcSlBoundary demo_rli_blocked)) = lit_50"
    by (simp add: FindCreepDistance_def demo_distances demo_defs)
  have far: "all_far_away (decider_creep_config demo_decider)
               (obstacles (path_decision demo_rli))"
    using demo_obstacles
    by (simp add: all_far_away_iff demo_rli_def demo_rli_at_def demo_decider_def)
  have near: "\<not> all_far_away (decider_creep_config demo_decider)
                  (obstacles (path_decision demo_rli_blocked))"
    using demo_obstacles
    by (simp add: all_far_away_iff demo_rli_blocked_def demo_rli_at_def demo_decider_def)
  have none1: "all_far_away (decider_creep_config demo_decider)
                 (obstacles (path_decision (demo_rli_at lit_62_1 [])))"
    and none2: "all_far_away (decider_creep_config demo_decider)
                 (obstacles (path_decision (demo_rli_at lit_62_5 [])))"
    by (simp_all add: demo_rli_at_def)
  have closed: "\<not> gate_satisfied (decider_creep_config demo_decider)
                   (distance_to_go lit_100_0 (FindCreepDistance demo_frame demo_rli_blocked)
                      (end_s (AdcSlBoundary demo_rli_blocked))) lit_3 lit_15"
    by (simp add: gate_satisfied_def dge_def FindCreepDistance_def demo_distances demo_defs)
  have opened: "gate_satisfied (decider_creep_config demo_decider)
                   (distance_to_go lit_63_6
                      (FindCreepDistance demo_frame (demo_rli_at lit_62_1 []))
                      (end_s (AdcSlBoundary (demo_rli_at lit_62_1 [])))) lit_3 lit_15"
    by (simp add: gate_satisfied_def dge_def FindCreepDistance_def demo_distances demo_defs)
  have edge: "\<not> gate_satisfied (decider_creep_config demo_decider)
                   (distance_to_go lit_below_64
                      (FindCreepDistance demo_frame (demo_rli_at lit_62_5 []))
                      (end_s (AdcSlBoundary (demo_rli_at lit_62_5 [])))) lit_3 lit_15"
    by (simp add: gate_satisfied_def dge_def FindCreepDistance_def demo_distances demo_defs)
  note clear_call =
    CheckCreepDone_gate_iff [of demo_decider demo_frame demo_rli lit_100_0 lit_20 lit_15 4]
  note blocked_call =
    CheckCreepDone_gate_iff
      [of demo_decider demo_frame demo_rli_blocked lit_100_0 lit_20 lit_15 4]
  note closed_call =
    CheckCreepDone_gate_iff
      [of demo_decider demo_frame demo_rli_blocked lit_100_0 lit_3 lit_15 4]
  note opened_call =
    CheckCreepDone_gate_iff
      [of demo_decider demo_frame "demo_rli_at lit_62_1 []" lit_63_6 lit_3 lit_15 4]
  note edge_call =
    CheckCreepDone_gate_iff
      [of demo_decider demo_frame "demo_rli_at lit_62_5 []" lit_below_64 lit_3 lit_15 2]
  from clear_call m d1
  have g: "gate_satisfied (decider_creep_config demo_decider) lit_50 lit_20 lit_15"
    and c1: "CheckCreepDone demo_decider demo_frame demo_rli lit_100_0 lit_20 lit_15 4 =
               DebounceGate
                 (if all_far_away (decider_creep_config demo_decider)
                       (obstacles (path_decision demo_rli))
                  then clear else blocked) 4"
    by blast+
  from blocked_call m d2
  have c2: "CheckCreepDone demo_decider demo_frame demo_rli_blocked lit_100_0 lit_20 lit_15 4 =
               DebounceGate
                 (if all_far_away (decider_creep_config demo_decider)
                       (obstacles (path_decision demo_rli_blocked))
                  then clear else blocked) 4"
    by blast
  from closed_call closed
  have c3: "CheckCreepDone demo_decider demo_frame demo_rli_blocked lit_100_0 lit_3 lit_15 4 =
              DebounceGate gate_not_satisfied 4"
    by presburger
  from opened_call opened
  have c4: "CheckCreepDone demo_decider demo_frame (demo_rli_at lit_62_1 []) lit_63_6 lit_3
              lit_15 4 =
              DebounceGate
                 (if all_far_away (decider_creep_config demo_decider)
                       (obstacles (path_decision (demo_rli_at lit_62_1 [])))
                  then clear else blocked) 4"
    by presburger
  from edge_call edge
  have c5: "CheckCreepDone demo_decider demo_frame (demo_rli_at lit_62_5 []) lit_below_64 lit_3
              lit_15 2 = DebounceGate gate_not_satisfied 2"
    by presburger
  have r1: "CheckCreepDone demo_decider demo_frame demo_rli lit_100_0 lit_20 lit_15 4 =
              (True, 0)"
    unfolding c1 using far by (simp add: word_le_nat_alt)
  have r2: "CheckCreepDone demo_decider demo_frame demo_rli_blocked lit_100_0 lit_20 lit_15 4 =
              (False, 0)"
    unfolding c2 using near by simp
  have r3: "CheckCreepDone demo_decider demo_frame demo_rli_blocked lit_100_0 lit_3 lit_15 4 =
              (False, 4)"
    unfolding c3 by simp
  have r4: "CheckCreepDone demo_decider demo_frame (demo_rli_at lit_62_1 []) lit_63_6 lit_3
              lit_15 4 = (True, 0)"
    unfolding c4 using none1 by (simp add: word_le_nat_alt)
  have r5: "CheckCreepDone demo_decider demo_frame (demo_rli_at lit_62_5 []) lit_below_64 lit_3
              lit_15 2 = (False, 2)"
    unfolding c5 by simp
  from m d1 g r1 r2 r3 r4 r5 show ?thesis by blast
qed

text \<open>
  C4. In the obstacle scan of \<^verbatim>\<open>CheckCreepDone\<close> an obstacle blocks if and only if it
  is neither virtual nor static, the \<open>min_t\<close> of its ST boundary is below
  \<open>min_boundary_t\<close>, and it does not meet the benign exception
  (\<open>traveled_s = bottom_left.s - bottom_right.s < 1e-6\<close>, \<open>min_t < ignore_max_st_min_t\<close>
  and \<open>min_s > ignore_min_st_min_s\<close>): the scan ends with \<^verbatim>\<open>all_far_away\<close> true exactly
  when no obstacle of the list blocks in that sense. An obstacle that meets the benign
  exception does not block, and the scan gives the same answer with and without it. The
  difference is that of doubles and \<open>1e-6\<close> is the double of the literal.
\<close>

theorem all_far_away_blocking:
  "all_far_away creep_config obs = (\<forall>ob \<in> set obs. \<not> blocking creep_config ob) \<and>
   (benign_exception creep_config ob \<longrightarrow>
      \<not> blocking creep_config ob \<and>
      all_far_away creep_config (before @ ob # after) =
        all_far_away creep_config (before @ after))"
  by (auto simp: all_far_away_iff blocking_def)

text \<open>
  The benign obstacle among others; and the obstacle whose \<open>traveled_s\<close> is the double
  \<open>1e-6\<close> itself, which is not below \<open>1e-6\<close>: it does not meet the exception and blocks.
\<close>

theorem all_far_away_blocking_witness:
  "benign_exception demo_config demo_benign \<and>
   \<not> blocking demo_config demo_benign \<and>
   blocking demo_config demo_blocking \<and>
   all_far_away demo_config [demo_static, demo_benign, demo_far] \<and>
   \<not> all_far_away demo_config [demo_static, demo_benign, demo_blocking] \<and>
   all_far_away demo_config ([demo_static] @ demo_benign # [demo_far]) =
     all_far_away demo_config ([demo_static] @ [demo_far]) \<and>
   traveled_s demo_edge = lit_1e_6 \<and>
   \<not> benign_exception demo_config demo_edge \<and>
   blocking demo_config demo_edge \<and>
   \<not> all_far_away demo_config [demo_edge]"
proof -
  note b = demo_obstacles(2) and s = demo_obstacles(1) and f = demo_obstacles(5)
    and k = demo_obstacles(4)
  note scan1 =
    all_far_away_blocking
      [of demo_config "[demo_static, demo_benign, demo_far]" demo_benign "[demo_static]"
          "[demo_far]"]
  note scan2 =
    all_far_away_blocking
      [of demo_config "[demo_static, demo_benign, demo_blocking]" demo_benign "[]" "[]"]
  note scan3 =
    all_far_away_blocking [of demo_config "[demo_edge]" demo_benign "[]" "[]"]
  from scan1 b have nb: "\<not> blocking demo_config demo_benign"
    and same: "all_far_away demo_config ([demo_static] @ demo_benign # [demo_far]) =
                 all_far_away demo_config ([demo_static] @ [demo_far])"
    by blast+
  from scan1 have e1: "all_far_away demo_config [demo_static, demo_benign, demo_far] =
      (\<forall>ob \<in> set [demo_static, demo_benign, demo_far]. \<not> blocking demo_config ob)"
    by blast
  from scan2 have e2: "all_far_away demo_config [demo_static, demo_benign, demo_blocking] =
      (\<forall>ob \<in> set [demo_static, demo_benign, demo_blocking]. \<not> blocking demo_config ob)"
    by blast
  from scan3 have e3: "all_far_away demo_config [demo_edge] =
      (\<forall>ob \<in> set [demo_edge]. \<not> blocking demo_config ob)"
    by blast
  have a1: "all_far_away demo_config [demo_static, demo_benign, demo_far]"
    unfolding e1 using s nb f by simp
  have a2: "\<not> all_far_away demo_config [demo_static, demo_benign, demo_blocking]"
    unfolding e2 using k by simp
  have a3: "\<not> all_far_away demo_config [demo_edge]"
    unfolding e3 using demo_obstacles(8) by simp
  from b nb k a1 a2 same demo_obstacles(6) demo_obstacles(7) demo_obstacles(8) a3
  show ?thesis by blast
qed

subsection \<open>The stop line and the stop wall\<close>

text \<open>
  C2. For every stop-sign overlap id of the planning status and every list of
  traffic-light overlaps, the \<^verbatim>\<open>stop_line_s\<close> that \<^verbatim>\<open>Process\<close> computes is: the
  \<open>end_s\<close> of the stop-sign overlap when the id is not empty and resolves on the current
  reference line; 0 when the id is not empty and does not resolve, whatever the traffic
  lights are; the \<open>end_s\<close> of the first traffic-light overlap when the id is empty and
  there is at least one; 0 otherwise.
\<close>

theorem Process_stop_line_s_cases:
  "(current_stop_sign_overlap_id ctx \<noteq> [] \<and>
      RefreshOverlapOnReferenceLine ext r (current_stop_sign_overlap_id ctx) STOP_SIGN = Some ov
      \<longrightarrow> Process_stop_line_s ext ctx r = overlap_end_s ov) \<and>
   (current_stop_sign_overlap_id ctx \<noteq> [] \<and>
      RefreshOverlapOnReferenceLine ext r (current_stop_sign_overlap_id ctx) STOP_SIGN = None
      \<longrightarrow> Process_stop_line_s ext ctx r = lit_0_0) \<and>
   (current_stop_sign_overlap_id ctx = [] \<and> current_traffic_light_overlaps ctx = light # others
      \<longrightarrow> Process_stop_line_s ext ctx r = overlap_end_s light) \<and>
   (current_stop_sign_overlap_id ctx = [] \<and> current_traffic_light_overlaps ctx = []
      \<longrightarrow> Process_stop_line_s ext ctx r = lit_0_0)"
  by (simp add: Process_stop_line_s_def Let_def)

theorem Process_stop_line_s_cases_witness:
  "Process_stop_line_s demo_extern demo_ctx_sign demo_rli = lit_42 \<and>
   Process_stop_line_s demo_extern demo_ctx_gone demo_rli = lit_0_0 \<and>
   Process_stop_line_s demo_extern demo_ctx_lights demo_rli = lit_7 \<and>
   Process_stop_line_s demo_extern demo_ctx_none demo_rli = lit_0_0"
proof -
  have sign: "current_stop_sign_overlap_id demo_ctx_sign \<noteq> [] \<and>
      RefreshOverlapOnReferenceLine demo_extern demo_rli
        (current_stop_sign_overlap_id demo_ctx_sign) STOP_SIGN = Some demo_overlap"
    by (simp add: demo_ctx_sign_def demo_extern_def)
  have gone: "current_stop_sign_overlap_id demo_ctx_gone \<noteq> [] \<and>
      RefreshOverlapOnReferenceLine demo_extern demo_rli
        (current_stop_sign_overlap_id demo_ctx_gone) STOP_SIGN = None"
    by (simp add: demo_ctx_gone_def demo_extern_def)
  have lights: "current_stop_sign_overlap_id demo_ctx_lights = [] \<and>
      current_traffic_light_overlaps demo_ctx_lights = demo_light lit_7 # [demo_light lit_9]"
    by (simp add: demo_ctx_lights_def)
  have none: "current_stop_sign_overlap_id demo_ctx_none = [] \<and>
      current_traffic_light_overlaps demo_ctx_none = []"
    by (simp add: demo_ctx_none_def)
  from Process_stop_line_s_cases
         [of demo_ctx_sign demo_extern demo_rli demo_overlap "demo_light lit_7" "[]"] sign
  have r1: "Process_stop_line_s demo_extern demo_ctx_sign demo_rli = overlap_end_s demo_overlap"
    by blast
  from Process_stop_line_s_cases
         [of demo_ctx_gone demo_extern demo_rli demo_overlap "demo_light lit_7" "[]"] gone
  have r2: "Process_stop_line_s demo_extern demo_ctx_gone demo_rli = lit_0_0"
    by blast
  from Process_stop_line_s_cases
         [of demo_ctx_lights demo_extern demo_rli demo_overlap "demo_light lit_7"
             "[demo_light lit_9]"]
       lights
  have r3: "Process_stop_line_s demo_extern demo_ctx_lights demo_rli =
              overlap_end_s (demo_light lit_7)"
    by blast
  from Process_stop_line_s_cases
         [of demo_ctx_none demo_extern demo_rli demo_overlap "demo_light lit_7" "[]"] none
  have r4: "Process_stop_line_s demo_extern demo_ctx_none demo_rli = lit_0_0"
    by blast
  from r1 r2 r3 r4 show ?thesis
    by (simp add: demo_overlap_def demo_light_def)
qed

text \<open>
  C7. With \<open>stop_line_s = 100.0\<close>, the creep distance 0.5 and \<open>stop_distance = 1.0\<close>, a
  build whose obstacle creation and registration succeed asks for the obstacle at
  \<open>creep_stop_s = 100.5\<close>, reads the reference point at \<open>stop_s = 99.5\<close>, returns true,
  and attaches under the tag Creeper, for the id of the stop wall, a stop decision with
  reason \<open>STOP_REASON_CREEPER\<close>, \<open>distance_s = -1.0\<close>, the stop point \<open>(x, y, 0)\<close> of
  that reference point and its heading. The doubles are \<open>100.0 = 25 * 2 ^ 2\<close>,
  \<open>100.5 = 201 / 2\<close>, \<open>99.5 = 199 / 2\<close>, and both operations are exact on them.
\<close>

theorem BuildStopDecision_scenario:
  assumes "stop_distance (decider_creep_config this) = lit_1_0"
    and "CreateStopObstacle ext f r (CREEP_VO_ID_PREFIX ext @ ''SS'') lit_100_5 = (Some ob, f1)"
    and "AddObstacle ext (obstacles (path_decision r)) ob = (Some wall, obs1)"
  shows "BuildStopDecision this ext lit_100_0 (Some f) (Some r) =
     Inr (True, f1,
          r\<lparr>path_decision := (path_decision r)
             \<lparr>obstacles := obs1,
              longitudinal_decisions := longitudinal_decisions (path_decision r) @
                [(''Creeper'', ObstacleId wall,
                  stop \<lparr>reason_code = STOP_REASON_CREEPER,
                        distance_s = Finite (- 1) 0,
                        stop_point =
                          \<lparr>pt_x = rp_x (GetReferencePoint (reference_line r) lit_99_5),
                           pt_y = rp_y (GetReferencePoint (reference_line r) lit_99_5),
                           pt_z = lit_0_0\<rparr>,
                        stop_heading =
                          rp_heading (GetReferencePoint (reference_line r) lit_99_5)\<rparr>)]\<rparr>\<rparr>)"
  using assms
  by (simp add: BuildStopDecision_def FindCreepDistance_def AddLongitudinalDecision_def
      Let_def scenario_sums)

theorem BuildStopDecision_scenario_witness:
  "valof (Finite (- 1) 0) = Some (- 1) \<and>
   BuildStopDecision demo_decider demo_extern lit_100_0 (Some demo_frame) (Some demo_rli) =
     Inr (True,
          \<lparr>frame_obstacles = [demo_wall ''CREEP_SS'']\<rparr>,
          \<lparr>AdcSlBoundary = \<lparr>end_s = lit_50_5\<rparr>,
           path_decision =
             \<lparr>obstacles = [demo_static, demo_benign, demo_far, demo_wall ''CREEP_SS''],
              longitudinal_decisions =
                [(''Creeper'', ''CREEP_SS'',
                  stop \<lparr>reason_code = STOP_REASON_CREEPER, distance_s = Finite (- 1) 0,
                        stop_point = \<lparr>pt_x = lit_99_5, pt_y = lit_2_0, pt_z = lit_0_0\<rparr>,
                        stop_heading = lit_0_25\<rparr>)]\<rparr>,
           reference_line = demo_line\<rparr>)"
proof -
  have d: "stop_distance (decider_creep_config demo_decider) = lit_1_0"
    by (simp add: demo_decider_def demo_config_def)
  have c: "CreateStopObstacle demo_extern demo_frame demo_rli
             (CREEP_VO_ID_PREFIX demo_extern @ ''SS'') lit_100_5 =
           (Some (demo_wall ''CREEP_SS''), \<lparr>frame_obstacles = [demo_wall ''CREEP_SS'']\<rparr>)"
    by (simp add: demo_extern_def demo_frame_def)
  have a: "AddObstacle demo_extern (obstacles (path_decision demo_rli)) (demo_wall ''CREEP_SS'') =
           (Some (demo_wall ''CREEP_SS''),
            [demo_static, demo_benign, demo_far, demo_wall ''CREEP_SS''])"
    by (simp add: demo_extern_def demo_rli_def demo_rli_at_def)
  have v: "valof (Finite (- 1) 0) = Some (- 1)"
    by (simp add: valof_def)
  have "BuildStopDecision demo_decider demo_extern lit_100_0 (Some demo_frame) (Some demo_rli) =
     Inr (True,
          \<lparr>frame_obstacles = [demo_wall ''CREEP_SS'']\<rparr>,
          \<lparr>AdcSlBoundary = \<lparr>end_s = lit_50_5\<rparr>,
           path_decision =
             \<lparr>obstacles = [demo_static, demo_benign, demo_far, demo_wall ''CREEP_SS''],
              longitudinal_decisions =
                [(''Creeper'', ''CREEP_SS'',
                  stop \<lparr>reason_code = STOP_REASON_CREEPER, distance_s = Finite (- 1) 0,
                        stop_point = \<lparr>pt_x = lit_99_5, pt_y = lit_2_0, pt_z = lit_0_0\<rparr>,
                        stop_heading = lit_0_25\<rparr>)]\<rparr>,
           reference_line = demo_line\<rparr>)"
    unfolding BuildStopDecision_scenario [OF d c a]
    by (simp add: demo_rli_def demo_rli_at_def demo_line_def demo_wall_def)
  with v show ?thesis by blast
qed

text \<open>
  C8. If the creation of the virtual stop obstacle fails, or its registration in the
  reference-line info fails, \<^verbatim>\<open>BuildStopDecision\<close> returns false and the longitudinal
  decisions of the path decision are those it had before the call: no stop decision is
  attached, not even in part. The creation that counts is the one the code asks for, at
  the sum that the doubles give.
\<close>

theorem BuildStopDecision_failure:
  assumes "fst (CreateStopObstacle ext f r (CREEP_VO_ID_PREFIX ext @ ''SS'')
                  (dadd s (FindCreepDistance f r))) = None \<or>
           (\<exists>ob. fst (CreateStopObstacle ext f r (CREEP_VO_ID_PREFIX ext @ ''SS'')
                         (dadd s (FindCreepDistance f r))) = Some ob \<and>
                 fst (AddObstacle ext (obstacles (path_decision r)) ob) = None)"
  shows "\<exists>f1 r1. BuildStopDecision this ext s (Some f) (Some r) = Inr (False, f1, r1) \<and>
           longitudinal_decisions (path_decision r1) = longitudinal_decisions (path_decision r)"
  using assms
  by (auto simp: BuildStopDecision_def Let_def split: prod.split option.split)

text \<open>
  A creation that always fails; a registration that always fails; and a creation that
  fails below 64.5: at 63.6 the code asks at 64.1 and the build fails, while at
  \<open>64 - 2 ^ -47\<close> the sum rounds to 64.5, the creation succeeds and the build returns
  true.
\<close>

theorem BuildStopDecision_failure_witness:
  "BuildStopDecision demo_decider demo_extern_no_create lit_100_0 (Some demo_frame)
     (Some demo_rli) = Inr (False, demo_frame, demo_rli) \<and>
   (\<exists>f1 r1. BuildStopDecision demo_decider demo_extern_no_add lit_100_0 (Some demo_frame)
               (Some demo_rli) = Inr (False, f1, r1) \<and>
            longitudinal_decisions (path_decision r1) = []) \<and>
   (\<exists>f1 r1. BuildStopDecision demo_decider demo_extern_from_64_5 lit_63_6 (Some demo_frame)
               (Some demo_rli) = Inr (False, f1, r1) \<and>
            longitudinal_decisions (path_decision r1) = []) \<and>
   dadd lit_below_64 lit_0_5 = lit_64_5 \<and>
   (\<exists>f1 r1. BuildStopDecision demo_decider demo_extern_from_64_5 lit_below_64
               (Some demo_frame) (Some demo_rli) = Inr (True, f1, r1))"
proof -
  have c: "fst (CreateStopObstacle demo_extern_no_create demo_frame demo_rli
                  (CREEP_VO_ID_PREFIX demo_extern_no_create @ ''SS'')
                  (dadd lit_100_0 (FindCreepDistance demo_frame demo_rli))) = None"
    by (simp add: demo_extern_no_create_def demo_extern_def)
  have a: "\<exists>ob. fst (CreateStopObstacle demo_extern_no_add demo_frame demo_rli
                  (CREEP_VO_ID_PREFIX demo_extern_no_add @ ''SS'')
                  (dadd lit_100_0 (FindCreepDistance demo_frame demo_rli))) = Some ob \<and>
                fst (AddObstacle demo_extern_no_add (obstacles (path_decision demo_rli)) ob)
                  = None"
    by (simp add: demo_extern_no_add_def demo_extern_def)
  have b: "fst (CreateStopObstacle demo_extern_from_64_5 demo_frame demo_rli
                  (CREEP_VO_ID_PREFIX demo_extern_from_64_5 @ ''SS'')
                  (dadd lit_63_6 (FindCreepDistance demo_frame demo_rli))) = None"
    by (simp add: demo_extern_from_64_5_def demo_extern_def FindCreepDistance_def
        rounded_sums)
  have e: "longitudinal_decisions (path_decision demo_rli) = []"
    by (simp add: demo_rli_def demo_rli_at_def)
  from BuildStopDecision_failure
         [of demo_extern_no_create demo_frame demo_rli lit_100_0 demo_decider] c
  obtain f1 r1 where
    "BuildStopDecision demo_decider demo_extern_no_create lit_100_0 (Some demo_frame)
       (Some demo_rli) = Inr (False, f1, r1)"
    by blast
  then have r1: "BuildStopDecision demo_decider demo_extern_no_create lit_100_0
       (Some demo_frame) (Some demo_rli) = Inr (False, demo_frame, demo_rli)"
    by (simp add: BuildStopDecision_def Let_def demo_extern_no_create_def demo_extern_def)
  from BuildStopDecision_failure
         [of demo_extern_no_add demo_frame demo_rli lit_100_0 demo_decider] a
  have "\<exists>f1 r1. BuildStopDecision demo_decider demo_extern_no_add lit_100_0 (Some demo_frame)
               (Some demo_rli) = Inr (False, f1, r1) \<and>
            longitudinal_decisions (path_decision r1) =
              longitudinal_decisions (path_decision demo_rli)"
    by blast
  then have r2: "\<exists>f1 r1. BuildStopDecision demo_decider demo_extern_no_add lit_100_0
               (Some demo_frame) (Some demo_rli) = Inr (False, f1, r1) \<and>
            longitudinal_decisions (path_decision r1) = []"
    by (simp only: e)
  from BuildStopDecision_failure
         [of demo_extern_from_64_5 demo_frame demo_rli lit_63_6 demo_decider] b
  have "\<exists>f1 r1. BuildStopDecision demo_decider demo_extern_from_64_5 lit_63_6
               (Some demo_frame) (Some demo_rli) = Inr (False, f1, r1) \<and>
            longitudinal_decisions (path_decision r1) =
              longitudinal_decisions (path_decision demo_rli)"
    by blast
  then have r3: "\<exists>f1 r1. BuildStopDecision demo_decider demo_extern_from_64_5 lit_63_6
               (Some demo_frame) (Some demo_rli) = Inr (False, f1, r1) \<and>
            longitudinal_decisions (path_decision r1) = []"
    by (simp only: e)
  have r4: "\<exists>f1 r1. BuildStopDecision demo_decider demo_extern_from_64_5 lit_below_64
               (Some demo_frame) (Some demo_rli) = Inr (True, f1, r1)"
    by (simp add: BuildStopDecision_def Let_def FindCreepDistance_def rounded_sums
        demo_extern_from_64_5_def demo_extern_def)
  from r1 r2 r3 r4 rounded_sums(5) show ?thesis by blast
qed

text \<open>
  C9. For every frame and reference-line info that are not null, \<^verbatim>\<open>Process\<close> returns
  \<^verbatim>\<open>Status::OK\<close>: also when \<open>stop_line_s \<le> 0\<close> or, more generally, when
  \<open>stop_line_s > 0.0\<close> is false, where nothing is built and the frame and the
  reference-line info are as they were, and also when \<^verbatim>\<open>BuildStopDecision\<close> returns
  false, so the status does not show a failed build of the stop wall.
\<close>

theorem Process_returns_OK:
  "(\<exists>f2 r2. Process this ext ctx (Some f) (Some r) = Inr (OK, f2, r2)) \<and>
   (dle (Process_stop_line_s ext ctx r) lit_0_0 \<longrightarrow>
      Process this ext ctx (Some f) (Some r) = Inr (OK, f, r)) \<and>
   (\<not> dgt (Process_stop_line_s ext ctx r) lit_0_0 \<longrightarrow>
      Process this ext ctx (Some f) (Some r) = Inr (OK, f, r)) \<and>
   (dgt (Process_stop_line_s ext ctx r) lit_0_0 \<and>
    BuildStopDecision this ext (Process_stop_line_s ext ctx r) (Some f) (Some r) =
      Inr (False, f1, r1) \<longrightarrow>
      Process this ext ctx (Some f) (Some r) = Inr (OK, f1, r1))"
proof -
  obtain built f3 r3 where
    "BuildStopDecision this ext (Process_stop_line_s ext ctx r) (Some f) (Some r) =
       Inr (built, f3, r3)"
    using BuildStopDecision_total by blast
  moreover have "dle (Process_stop_line_s ext ctx r) lit_0_0 \<Longrightarrow>
                   \<not> dgt (Process_stop_line_s ext ctx r) lit_0_0"
    by (simp add: dgt_def dle_not_dlt)
  ultimately show ?thesis
    by (auto simp: Process_def Let_def)
qed

theorem Process_returns_OK_witness:
  "dle (Process_stop_line_s demo_extern demo_ctx_none demo_rli) lit_0_0 \<and>
   \<not> dgt (Process_stop_line_s demo_extern demo_ctx_none demo_rli) lit_0_0 \<and>
   Process demo_decider demo_extern demo_ctx_none (Some demo_frame) (Some demo_rli) =
     Inr (OK, demo_frame, demo_rli) \<and>
   dgt (Process_stop_line_s demo_extern_no_create demo_ctx_lights demo_rli) lit_0_0 \<and>
   BuildStopDecision demo_decider demo_extern_no_create
     (Process_stop_line_s demo_extern_no_create demo_ctx_lights demo_rli)
     (Some demo_frame) (Some demo_rli) = Inr (False, demo_frame, demo_rli) \<and>
   Process demo_decider demo_extern_no_create demo_ctx_lights (Some demo_frame) (Some demo_rli) =
     Inr (OK, demo_frame, demo_rli)"
proof -
  have z: "dle (Process_stop_line_s demo_extern demo_ctx_none demo_rli) lit_0_0"
    by (simp add: Process_stop_line_s_def demo_ctx_none_def)
  have n: "\<not> dgt (Process_stop_line_s demo_extern demo_ctx_none demo_rli) lit_0_0"
    by (simp add: Process_stop_line_s_def demo_ctx_none_def dgt_def)
  have p: "dgt (Process_stop_line_s demo_extern_no_create demo_ctx_lights demo_rli) lit_0_0"
    by (simp add: Process_stop_line_s_def demo_ctx_lights_def demo_light_def dgt_def)
  have b: "BuildStopDecision demo_decider demo_extern_no_create
             (Process_stop_line_s demo_extern_no_create demo_ctx_lights demo_rli)
             (Some demo_frame) (Some demo_rli) = Inr (False, demo_frame, demo_rli)"
    by (simp add: BuildStopDecision_def Let_def demo_extern_no_create_def demo_extern_def)
  note stay =
    Process_returns_OK
      [of demo_decider demo_extern demo_ctx_none demo_frame demo_rli demo_frame demo_rli]
  from stay z
  have r1: "Process demo_decider demo_extern demo_ctx_none (Some demo_frame) (Some demo_rli) =
              Inr (OK, demo_frame, demo_rli)"
    by blast
  from Process_returns_OK
         [of demo_decider demo_extern_no_create demo_ctx_lights demo_frame demo_rli
             demo_frame demo_rli] p b
  have r2: "Process demo_decider demo_extern_no_create demo_ctx_lights (Some demo_frame)
              (Some demo_rli) = Inr (OK, demo_frame, demo_rli)"
    by blast
  from z n p b r1 r2 show ?thesis by blast
qed

text \<open>
  C10. \<^verbatim>\<open>FindCreepDistance\<close> returns 0.5 for every frame and reference-line info. So
  \<open>creep_stop_s\<close> is \<open>stop_line_s + 0.5\<close>, the sum of doubles, in both places:
  \<^verbatim>\<open>BuildStopDecision\<close> asks for the stop obstacle at \<open>stop_line_s + 0.5\<close> and, when it
  succeeds, takes the stop point at \<open>(stop_line_s + 0.5) - stop_distance\<close>;
  \<^verbatim>\<open>CheckCreepDone\<close> tests the distance \<open>(stop_sign_overlap_end_s + 0.5) - ego_end_s\<close>
  in its gate.
\<close>

theorem FindCreepDistance_half:
  "FindCreepDistance f r = lit_0_5 \<and>
   (CreateStopObstacle ext f r (CREEP_VO_ID_PREFIX ext @ ''SS'') (dadd s lit_0_5)
      = (Some ob, f1) \<and>
    AddObstacle ext (obstacles (path_decision r)) ob = (Some wall, obs1)
    \<longrightarrow> (\<exists>r1. BuildStopDecision this ext s (Some f) (Some r) = Inr (True, f1, r1) \<and>
          (\<exists>d. last (longitudinal_decisions (path_decision r1)) =
                 (''Creeper'', ObstacleId wall, stop d) \<and>
               pt_x (stop_point d) =
                 rp_x (GetReferencePoint (reference_line r)
                        (dsub (dadd s lit_0_5) (stop_distance (decider_creep_config this)))) \<and>
               pt_y (stop_point d) =
                 rp_y (GetReferencePoint (reference_line r)
                        (dsub (dadd s lit_0_5)
                           (stop_distance (decider_creep_config this))))))) \<and>
   CheckCreepDone this f r s w t c =
     (if gate_satisfied (decider_creep_config this)
           (distance_to_go s lit_0_5 (end_s (AdcSlBoundary r))) w t
      then DebounceGate
             (if all_far_away (decider_creep_config this) (obstacles (path_decision r))
              then clear else blocked) c
      else (False, c))"
  by (simp add: FindCreepDistance_def BuildStopDecision_def AddLongitudinalDecision_def
      CheckCreepDone_def gate_satisfied_def distance_to_go_def Let_def)

text \<open>
  At \<open>stop_line_s = 64 - 2 ^ -47\<close> the sum with 0.5 rounds to 64.5: the obstacle is asked
  for at 64.5 and, the stop distance being 1.0, the stop point is read at 63.5.
\<close>

theorem FindCreepDistance_half_witness:
  "FindCreepDistance demo_frame demo_rli = lit_0_5 \<and>
   dadd lit_below_64 lit_0_5 = lit_64_5 \<and>
   (\<exists>r1. BuildStopDecision demo_decider demo_extern_from_64_5 lit_below_64 (Some demo_frame)
            (Some demo_rli) =
            Inr (True, \<lparr>frame_obstacles = [demo_wall ''CREEP_SS'']\<rparr>, r1) \<and>
         (\<exists>d. last (longitudinal_decisions (path_decision r1)) =
                 (''Creeper'', ''CREEP_SS'', stop d) \<and>
               pt_x (stop_point d) = lit_63_5 \<and> pt_y (stop_point d) = lit_2_0))"
proof -
  have c: "CreateStopObstacle demo_extern_from_64_5 demo_frame demo_rli
             (CREEP_VO_ID_PREFIX demo_extern_from_64_5 @ ''SS'') (dadd lit_below_64 lit_0_5) =
           (Some (demo_wall ''CREEP_SS''), \<lparr>frame_obstacles = [demo_wall ''CREEP_SS'']\<rparr>)"
    by (simp add: demo_extern_from_64_5_def demo_extern_def demo_frame_def rounded_sums)
  have a: "AddObstacle demo_extern_from_64_5 (obstacles (path_decision demo_rli))
             (demo_wall ''CREEP_SS'') =
           (Some (demo_wall ''CREEP_SS''),
            [demo_static, demo_benign, demo_far, demo_wall ''CREEP_SS''])"
    by (simp add: demo_extern_from_64_5_def demo_extern_def demo_rli_def demo_rli_at_def)
  have i: "ObstacleId (demo_wall ''CREEP_SS'') = ''CREEP_SS''"
    by (simp add: demo_wall_def)
  have x: "rp_x (GetReferencePoint (reference_line demo_rli)
                  (dsub (dadd lit_below_64 lit_0_5)
                     (stop_distance (decider_creep_config demo_decider)))) = lit_63_5"
    and y: "rp_y (GetReferencePoint (reference_line demo_rli)
                  (dsub (dadd lit_below_64 lit_0_5)
                     (stop_distance (decider_creep_config demo_decider)))) = lit_2_0"
    by (simp_all add: demo_rli_def demo_rli_at_def demo_line_def demo_decider_def
        demo_config_def rounded_sums)
  note t = FindCreepDistance_half
         [of demo_frame demo_rli demo_extern_from_64_5 lit_below_64 "demo_wall ''CREEP_SS''"
             "\<lparr>frame_obstacles = [demo_wall ''CREEP_SS'']\<rparr>" "demo_wall ''CREEP_SS''"
             "[demo_static, demo_benign, demo_far, demo_wall ''CREEP_SS'']" demo_decider]
  from t have h: "FindCreepDistance demo_frame demo_rli = lit_0_5"
    by blast
  from t c a
  have b: "\<exists>r1. BuildStopDecision demo_decider demo_extern_from_64_5 lit_below_64
            (Some demo_frame) (Some demo_rli) =
            Inr (True, \<lparr>frame_obstacles = [demo_wall ''CREEP_SS'']\<rparr>, r1) \<and>
         (\<exists>d. last (longitudinal_decisions (path_decision r1)) =
                 (''Creeper'', ObstacleId (demo_wall ''CREEP_SS''), stop d) \<and>
               pt_x (stop_point d) =
                 rp_x (GetReferencePoint (reference_line demo_rli)
                        (dsub (dadd lit_below_64 lit_0_5)
                           (stop_distance (decider_creep_config demo_decider)))) \<and>
               pt_y (stop_point d) =
                 rp_y (GetReferencePoint (reference_line demo_rli)
                        (dsub (dadd lit_below_64 lit_0_5)
                           (stop_distance (decider_creep_config demo_decider)))))"
    by blast
  from h b rounded_sums(5) show ?thesis
    unfolding i x y by blast
qed

end
